theory Spec2Isabelle
  imports Complex_Main
begin

section \<open>JavaScript values used by the web components\<close>

text \<open>
  A JavaScript number is NaN, an infinity or a finite value. Finite values are kept as
  exact rationals (every finite double is one); the negative zero is not told apart
  from zero, which no operation below does either (\<open>!(-0)\<close> is true and
  \<open>(-0).toFixed(1)\<close> is \<open>0.0\<close>). An optional property \<open>score?: number\<close> is a
  \<open>number option\<close>, \<open>None\<close> being \<open>undefined\<close>.
\<close>

datatype number = NaN | Num rat | PosInfinity | NegInfinity

text \<open>ToBoolean of an optional number: \<open>undefined\<close>, zero and NaN are falsy.\<close>

fun toBoolean :: "number option \<Rightarrow> bool" where
  "toBoolean None = False"
| "toBoolean (Some NaN) = False"
| "toBoolean (Some (Num x)) = (x \<noteq> 0)"
| "toBoolean (Some PosInfinity) = True"
| "toBoolean (Some NegInfinity) = True"

text \<open>The comparison \<open>score >= k\<close> against a finite literal; it is false on NaN.\<close>

fun greaterEq :: "number \<Rightarrow> rat \<Rightarrow> bool" where
  "greaterEq NaN k = False"
| "greaterEq (Num x) k = (k \<le> x)"
| "greaterEq PosInfinity k = True"
| "greaterEq NegInfinity k = False"

text \<open>The product \<open>score * 10\<close>.\<close>

fun times10 :: "number \<Rightarrow> number" where
  "times10 NaN = NaN"
| "times10 (Num x) = Num (x * 10)"
| "times10 PosInfinity = PosInfinity"
| "times10 NegInfinity = NegInfinity"

text \<open>Decimal digits of a natural number, most significant first.\<close>

definition digit :: "nat \<Rightarrow> char" where
  "digit d = ''0123456789'' ! d"

fun decimal :: "nat \<Rightarrow> string" where
  "decimal n = (if n < 10 then [digit n] else decimal (n div 10) @ [digit (n mod 10)])"

declare decimal.simps [simp del]

text \<open>
  \<open>Number.prototype.toFixed(1)\<close>: a value that is not finite prints as by ToString; a
  finite one prints its sign, then the integer \<open>n\<close> nearest to ten times the magnitude
  (the larger one on a tie) with a point before its last digit. From a magnitude of
  \<open>10^21\<close> on the built-in prints ToString's exponent notation instead; the model keeps
  the positional digits there.
\<close>

fun toFixed1 :: "number \<Rightarrow> string" where
  "toFixed1 NaN = ''NaN''"
| "toFixed1 PosInfinity = ''Infinity''"
| "toFixed1 NegInfinity = ''-Infinity''"
| "toFixed1 (Num x) =
     (let n = nat \<lfloor>\<bar>x\<bar> * 10 + 1 / 2\<rfloor>
      in (if x < 0 then ''-'' else '''') @ decimal (n div 10) @ ''.'' @ [digit (n mod 10)])"

section \<open>IdeaCanvas: score colour and score cards\<close>

text \<open>
  \<^verbatim>\<open>
  const getScoreColor = (score?: number) => {
      if (!score) return 'gray'
      if (score >= 8) return 'green'
      if (score >= 6) return 'yellow'
      return 'red'
  }
  \<close>
\<close>

definition getScoreColor :: "number option \<Rightarrow> string" where
  "getScoreColor score =
     (if \<not> toBoolean score then ''gray''
      else if greaterEq (the score) 8 then ''green''
      else if greaterEq (the score) 6 then ''yellow''
      else ''red'')"

text \<open>
  One score card of the canvas. The text element shows
  \<open>score?.toFixed(1) || 'N/A'\<close> in the colour \<open>getScoreColor(score)\<close>; below it stands the
  value of \<open>score && <Progress value={score * 10} color={getScoreColor(score)} />\<close>,
  which is the score itself when the score is falsy and the progress bar otherwise.
\<close>

datatype child = Undefined | NumberChild number | Progress number string

record card =
  shown :: string
  shown_c :: string
  below :: child

definition scoreText :: "number option \<Rightarrow> string" where
  "scoreText score =
     (case score of
        None \<Rightarrow> ''N/A''
      | Some x \<Rightarrow> (if toFixed1 x = [] then ''N/A'' else toFixed1 x))"

definition scoreBar :: "number option \<Rightarrow> child" where
  "scoreBar score =
     (case score of
        None \<Rightarrow> Undefined
      | Some x \<Rightarrow> (if toBoolean (Some x) then Progress (times10 x) (getScoreColor (Some x))
                  else NumberChild x))"

definition scoreCard :: "number option \<Rightarrow> card" where
  "scoreCard score =
     \<lparr>shown = scoreText score, shown_c = getScoreColor score, below = scoreBar score\<rparr>"

record idea =
  attractiveness_score :: "number option"
  confidence_score :: "number option"

definition attractivenessCard :: "idea \<Rightarrow> card" where
  "attractivenessCard localIdea = scoreCard (attractiveness_score localIdea)"

definition confidenceCard :: "idea \<Rightarrow> card" where
  "confidenceCard localIdea = scoreCard (confidence_score localIdea)"

definition isProgress :: "child \<Rightarrow> bool" where
  "isProgress c = (case c of Progress v col \<Rightarrow> True | _ \<Rightarrow> False)"

section \<open>HybridSearch: performSearch\<close>

text \<open>
  A JavaScript string is a sequence of UTF-16 code units. \<open>String.prototype.trim\<close>
  removes the WhiteSpace and LineTerminator code points of ECMAScript from both ends:
  TAB, LF, VT, FF, CR, SPACE, NBSP, U+1680, U+2000 to U+200A, LS, PS, U+202F, U+205F,
  U+3000 and the byte order mark U+FEFF.
\<close>

type_synonym jsstring = "nat list"

definition isWhiteSpace :: "nat \<Rightarrow> bool" where
  "isWhiteSpace c =
     (c = 9 \<or> c = 10 \<or> c = 11 \<or> c = 12 \<or> c = 13 \<or> c = 32 \<or> c = 160 \<or> c = 5760
      \<or> (8192 \<le> c \<and> c \<le> 8202) \<or> c = 8232 \<or> c = 8233 \<or> c = 8239 \<or> c = 8287
      \<or> c = 12288 \<or> c = 65279)"

definition trim :: "jsstring \<Rightarrow> jsstring" where
  "trim s = rev (dropWhile isWhiteSpace (rev (dropWhile isWhiteSpace s)))"

text \<open>The interfaces \<open>SearchFilters\<close> and the JSON body of the search request.\<close>

record DateRange =
  range_from :: "jsstring option"
  range_to :: "jsstring option"

record SearchFilters =
  sources :: "jsstring list option"
  industries :: "jsstring list option"
  date_range :: "DateRange option"
  min_score :: "number option"

definition emptyFilters :: SearchFilters where
  "emptyFilters = \<lparr>sources = None, industries = None, date_range = None, min_score = None\<rparr>"

record HybridWeights =
  bm25 :: rat
  vector :: rat
  rerank :: rat

record RequestBody =
  query :: jsstring
  filters :: SearchFilters
  limit :: nat
  hybrid_weights :: HybridWeights

record Request =
  url :: string
  http_method :: string
  headers :: "(string \<times> string) list"
  body :: RequestBody

text \<open>
  What a \<open>catch\<close> clause can receive: an \<open>Error\<close> object with its message, or any
  other thrown value.
\<close>

datatype thrown = Error string | NotAnError

text \<open>
  What the network does with the one \<open>fetch\<close>: the call rejects, or a response arrives
  with its \<open>ok\<close> flag. Reading the body with \<open>response.json()\<close> rejects, yields
  \<open>null\<close> (reading \<open>data.results\<close> then throws a TypeError with the engine's message),
  or yields an object whose \<open>results\<close> property is a list or falsy.
\<close>

datatype 'r json_body = JsonThrows thrown | JsonNull string | JsonData "'r list option"

datatype 'r fetch_result = FetchThrows thrown | Response bool "'r json_body"

text \<open>
  The component state touched by \<open>performSearch\<close> (\<open>results\<close>, \<open>loading\<close>,
  \<open>error\<close>), the requests sent so far and the calls of \<open>onSearchComplete\<close> made so far.
  The optional callback returns what it throws, if anything.
\<close>

record 'r component =
  results :: "'r list"
  loading :: bool
  error :: "string option"
  requests :: "Request list"
  notified :: "('r list \<times> jsstring) list"

definition searchRequest :: "jsstring \<Rightarrow> SearchFilters \<Rightarrow> Request" where
  "searchRequest searchQuery searchFilters =
     \<lparr>url = ''/api/v1/search'', http_method = ''POST'',
      headers = [(''Content-Type'', ''application/json'')],
      body = \<lparr>query = searchQuery, filters = searchFilters, limit = 20,
              hybrid_weights = \<lparr>bm25 = 4 / 10, vector = 4 / 10, rerank = 2 / 10\<rparr>\<rparr>\<rparr>"

text \<open>
  The \<open>try\<close> block: the state it leaves and the value it throws, if any.
  \<^verbatim>\<open>
  const response = await fetch('/api/v1/search', { method: 'POST', ... })
  if (!response.ok) { throw new Error('Search failed') }
  const data = await response.json()
  setResults(data.results || [])
  onSearchComplete?.(data.results || [], searchQuery)
  \<close>
\<close>

definition tryBlock ::
  "('r list \<Rightarrow> jsstring \<Rightarrow> thrown option) option \<Rightarrow> 'r fetch_result \<Rightarrow> jsstring
     \<Rightarrow> SearchFilters \<Rightarrow> 'r component \<Rightarrow> 'r component \<times> thrown option" where
  "tryBlock onSearchComplete net searchQuery searchFilters w =
     (let w1 = w\<lparr>requests := requests w @ [searchRequest searchQuery searchFilters]\<rparr>
      in case net of
           FetchThrows e \<Rightarrow> (w1, Some e)
         | Response ok js \<Rightarrow>
             if \<not> ok then (w1, Some (Error ''Search failed''))
             else (case js of
                     JsonThrows e \<Rightarrow> (w1, Some e)
                   | JsonNull m \<Rightarrow> (w1, Some (Error m))
                   | JsonData rs \<Rightarrow>
                       (let found = (case rs of None \<Rightarrow> [] | Some xs \<Rightarrow> xs);
                            w2 = w1\<lparr>results := found\<rparr>
                        in case onSearchComplete of
                             None \<Rightarrow> (w2, None)
                           | Some cb \<Rightarrow>
                               (w2\<lparr>notified := notified w2 @ [(found, searchQuery)]\<rparr>,
                                cb found searchQuery))))"

text \<open>
  \<^verbatim>\<open>
  catch (err) {
      setError(err instanceof Error ? err.message : 'Search failed')
      setResults([])
  }
  \<close>
\<close>

definition catchBlock :: "thrown \<Rightarrow> 'r component \<Rightarrow> 'r component" where
  "catchBlock err w =
     w\<lparr>error := Some (case err of Error m \<Rightarrow> m | NotAnError \<Rightarrow> ''Search failed''),
       results := []\<rparr>"

text \<open>
  \<^verbatim>\<open>
  const performSearch = useCallback(async (searchQuery: string, searchFilters: SearchFilters = {}) => {
      if (!searchQuery.trim()) {
          setResults([])
          return
      }
      setLoading(true)
      setError(null)
      try { ... } catch (err) { ... } finally { setLoading(false) }
  }, [onSearchComplete])
  \<close>
  An omitted \<open>searchFilters\<close> argument (\<open>None\<close>) takes the default \<open>{}\<close>.
\<close>

definition performSearch ::
  "('r list \<Rightarrow> jsstring \<Rightarrow> thrown option) option \<Rightarrow> 'r fetch_result \<Rightarrow> jsstring
     \<Rightarrow> SearchFilters option \<Rightarrow> 'r component \<Rightarrow> 'r component" where
  "performSearch onSearchComplete net searchQuery searchFilters w =
     (if trim searchQuery = [] then w\<lparr>results := []\<rparr>
      else
        (let w1 = w\<lparr>loading := True, error := None\<rparr>;
             tried = tryBlock onSearchComplete net searchQuery
                       (case searchFilters of None \<Rightarrow> emptyFilters | Some f \<Rightarrow> f) w1;
             w3 = (case snd tried of None \<Rightarrow> fst tried | Some e \<Rightarrow> catchBlock e (fst tried))
         in w3\<lparr>loading := False\<rparr>))"

section \<open>Run State Store\<close>

text \<open>
  Modelled from the spec: the Run State Store of the orchestration engine, whose code is
  not among the source files. The node identifiers are the fixed enumeration of the
  Graph Definition. A Run State holds the named slots of the data model and its version
  number. A patch carries the state version its caller presents, the evidence to
  append, and at most one intermediate result and one confidence to set.
\<close>

datatype node =
  Start | Research | Competitor | Ideation | Business | Tech | Validation | Export
  | Completed | Aborted

record evidence_item =
  source_ref :: string
  recency :: nat

record RunState =
  assumptions :: "string list"
  evidence :: "evidence_item list"
  intermediate_results :: "node \<Rightarrow> string option"
  confidence_by_node :: "node \<Rightarrow> rat option"
  guardrail_flags :: "string set"
  version :: nat

record patch =
  base_version :: nat
  new_evidence :: "evidence_item list"
  result_set :: "(node \<times> string) option"
  confidence_set :: "(node \<times> rat) option"

datatype store_error = StaleRun

type_synonym run_id = nat

type_synonym store = "run_id \<Rightarrow> RunState"

text \<open>
  Modelled from the spec: \<open>get(runId)\<close> returns the current state of the run.
\<close>

definition get :: "store \<Rightarrow> run_id \<Rightarrow> RunState" where
  "get st runId = st runId"

text \<open>
  Modelled from the spec: the merge of a patch into a state, "new evidence appended,
  intermediate result set, confidence set", the result being the next version;
  intermediate results are keyed by node and the last write overwrites.
\<close>

definition mergePatch :: "RunState \<Rightarrow> patch \<Rightarrow> RunState" where
  "mergePatch s p =
     s\<lparr>evidence := evidence s @ new_evidence p,
       intermediate_results :=
         (case result_set p of
            None \<Rightarrow> intermediate_results s
          | Some (n, r) \<Rightarrow> (intermediate_results s)(n \<mapsto> r)),
       confidence_by_node :=
         (case confidence_set p of
            None \<Rightarrow> confidence_by_node s
          | Some (n, c) \<Rightarrow> (confidence_by_node s)(n \<mapsto> c)),
       version := Suc (version s)\<rparr>"

text \<open>
  Modelled from the spec: \<open>apply(runId, patch)\<close>, the only mutator of the store. Calls
  for one run are linearized, so a call is a step from one store to the next; it returns
  the new state, or fails with \<open>StaleRun\<close> and leaves the store as it was. The
  precondition is the version match of the design notes: the store issues every version
  a caller can hold, so a version that does not match is an older one.
\<close>

definition applyPatch :: "store \<Rightarrow> run_id \<Rightarrow> patch \<Rightarrow> (store_error + RunState) \<times> store" where
  "applyPatch st runId p =
     (if base_version p = version (get st runId)
      then (let s' = mergePatch (get st runId) p in (Inr s', st(runId := s')))
      else (Inl StaleRun, st))"

text \<open>
  A run state without content at a given version, and a patch that appends one evidence
  item; the examples below run on them.
\<close>

definition freshState :: "nat \<Rightarrow> RunState" where
  "freshState v =
     \<lparr>assumptions = [], evidence = [], intermediate_results = (\<lambda>n. None),
      confidence_by_node = (\<lambda>n. None), guardrail_flags = {}, version = v\<rparr>"

definition evidencePatch :: "nat \<Rightarrow> string \<Rightarrow> patch" where
  "evidencePatch v src =
     \<lparr>base_version = v, new_evidence = [\<lparr>source_ref = src, recency = 1\<rparr>],
      result_set = None, confidence_set = None\<rparr>"

section \<open>Properties of the score cards\<close>

lemma digit_not_A: "d < 10 \<Longrightarrow> digit d \<noteq> CHR ''A''"
proof -
  assume "d < 10"
  then have "digit d \<in> set ''0123456789''"
    unfolding digit_def by (intro nth_mem) simp
  then show ?thesis
    by auto
qed

lemma toFixed1_nonempty: "toFixed1 x \<noteq> []"
  by (cases x) (simp_all add: Let_def)

lemma toFixed1_not_NA: "toFixed1 x \<noteq> ''N/A''"
proof (cases x)
  case (Num r)
  define n where "n = nat \<lfloor>\<bar>r\<bar> * 10 + 1 / 2\<rfloor>"
  have "last (toFixed1 x) = digit (n mod 10)"
    using Num by (simp add: Let_def n_def)
  moreover have "digit (n mod 10) \<noteq> CHR ''A''"
    by (rule digit_not_A) simp
  ultimately show ?thesis
    by auto
qed simp_all

lemma scoreText_NA: "(scoreText score = ''N/A'') = (score = None)"
  by (cases score) (simp_all add: scoreText_def toFixed1_nonempty toFixed1_not_NA)

lemma getScoreColor_cases:
  "getScoreColor score =
     (if score = None \<or> score = Some (Num 0) \<or> score = Some NaN then ''gray''
      else if greaterEq (the score) 8 then ''green''
      else if greaterEq (the score) 6 then ''yellow''
      else ''red'')"
proof (cases score)
  case None
  then show ?thesis by (simp add: getScoreColor_def)
next
  case (Some x)
  then show ?thesis by (cases x) (simp_all add: getScoreColor_def)
qed

lemma scoreCard_zero:
  "scoreCard (Some (Num 0)) =
     \<lparr>shown = ''0.0'', shown_c = ''gray'', below = NumberChild (Num 0)\<rparr>"
  by (simp add: scoreCard_def scoreText_def scoreBar_def getScoreColor_def decimal.simps
      digit_def)

lemma scoreCard_absent:
  "scoreCard None = \<lparr>shown = ''N/A'', shown_c = ''gray'', below = Undefined\<rparr>"
  by (simp add: scoreCard_def scoreText_def scoreBar_def getScoreColor_def)

text \<open>
  Claim C10, as the code has it. \<open>getScoreColor\<close> returns gray when the score is
  undefined, zero or NaN (the falsy scores), green when it is at least 8, yellow when it
  is at least 6 and below 8, and red otherwise. On the attractiveness and the confidence
  card only an absent score shows the text N/A; a score of exactly 0 shows the text 0.0,
  in gray and without a progress bar, and an absent score is gray without a progress
  bar as well.
\<close>

theorem score_colour_and_zero_score_card:
  "getScoreColor score =
     (if score = None \<or> score = Some (Num 0) \<or> score = Some NaN then ''gray''
      else if greaterEq (the score) 8 then ''green''
      else if greaterEq (the score) 6 then ''yellow''
      else ''red'')
   \<and> (shown (attractivenessCard localIdea) = ''N/A'') = (attractiveness_score localIdea = None)
   \<and> (shown (confidenceCard localIdea) = ''N/A'') = (confidence_score localIdea = None)
   \<and> shown (attractivenessCard (localIdea\<lparr>attractiveness_score := Some (Num 0)\<rparr>)) = ''0.0''
   \<and> shown_c (attractivenessCard (localIdea\<lparr>attractiveness_score := Some (Num 0)\<rparr>)) = ''gray''
   \<and> isProgress (below (attractivenessCard (localIdea\<lparr>attractiveness_score := Some (Num 0)\<rparr>)))
       = False
   \<and> shown (confidenceCard (localIdea\<lparr>confidence_score := Some (Num 0)\<rparr>)) = ''0.0''
   \<and> shown_c (confidenceCard (localIdea\<lparr>confidence_score := Some (Num 0)\<rparr>)) = ''gray''
   \<and> isProgress (below (confidenceCard (localIdea\<lparr>confidence_score := Some (Num 0)\<rparr>))) = False
   \<and> shown_c (attractivenessCard (localIdea\<lparr>attractiveness_score := None\<rparr>)) = ''gray''
   \<and> isProgress (below (attractivenessCard (localIdea\<lparr>attractiveness_score := None\<rparr>))) = False
   \<and> shown_c (confidenceCard (localIdea\<lparr>confidence_score := None\<rparr>)) = ''gray''
   \<and> isProgress (below (confidenceCard (localIdea\<lparr>confidence_score := None\<rparr>))) = False"
proof -
  have colour: "getScoreColor score =
     (if score = None \<or> score = Some (Num 0) \<or> score = Some NaN then ''gray''
      else if greaterEq (the score) 8 then ''green''
      else if greaterEq (the score) 6 then ''yellow''
      else ''red'')"
    by (rule getScoreColor_cases)
  have na: "(shown (scoreCard s) = ''N/A'') = (s = None)" for s
    by (simp add: scoreCard_def scoreText_NA)
  have zero: "shown (scoreCard (Some (Num 0))) = ''0.0''"
    "shown_c (scoreCard (Some (Num 0))) = ''gray''"
    "isProgress (below (scoreCard (Some (Num 0)))) = False"
    by (simp_all add: scoreCard_zero isProgress_def)
  have absent: "shown_c (scoreCard None) = ''gray''"
    "isProgress (below (scoreCard None)) = False"
    by (simp_all add: scoreCard_absent isProgress_def)
  show ?thesis
    using colour by (simp add: attractivenessCard_def confidenceCard_def na zero absent)
qed

text \<open>
  The claim as the spec words it fails: NaN is neither undefined nor 0 and is gray, not
  red; and the card of a score of 0 shows 0.0 where the card of an absent score shows
  N/A, so the two cards differ.
\<close>

theorem zero_score_card_differs_from_absent:
  "getScoreColor (Some NaN) = ''gray''
   \<and> shown (attractivenessCard \<lparr>attractiveness_score = Some (Num 0), confidence_score = None\<rparr>)
       = ''0.0''
   \<and> shown (attractivenessCard \<lparr>attractiveness_score = None, confidence_score = None\<rparr>)
       = ''N/A''
   \<and> attractivenessCard \<lparr>attractiveness_score = Some (Num 0), confidence_score = None\<rparr>
       \<noteq> attractivenessCard \<lparr>attractiveness_score = None, confidence_score = None\<rparr>
   \<and> shown (confidenceCard \<lparr>attractiveness_score = None, confidence_score = Some (Num 0)\<rparr>)
       = ''0.0''"
  by (simp add: attractivenessCard_def confidenceCard_def scoreCard_zero scoreCard_absent
      getScoreColor_def)

section \<open>Properties of performSearch\<close>

lemma dropWhile_all_iff: "(\<forall>x \<in> set (dropWhile P xs). P x) = (dropWhile P xs = [])"
proof
  assume holds: "\<forall>x \<in> set (dropWhile P xs). P x"
  show "dropWhile P xs = []"
  proof (rule ccontr)
    assume ne: "dropWhile P xs \<noteq> []"
    then have "\<not> P (hd (dropWhile P xs))"
      by (rule hd_dropWhile)
    moreover have "hd (dropWhile P xs) \<in> set (dropWhile P xs)"
      using ne by simp
    ultimately show False
      using holds by blast
  qed
next
  assume "dropWhile P xs = []"
  then show "\<forall>x \<in> set (dropWhile P xs). P x"
    by (simp only: set_simps ball_empty)
qed

lemma trim_Nil_iff: "(trim s = []) = list_all isWhiteSpace s"
proof -
  have "(trim s = []) = (\<forall>x \<in> set (dropWhile isWhiteSpace s). isWhiteSpace x)"
    by (simp add: trim_def dropWhile_eq_Nil_conv)
  also have "\<dots> = (dropWhile isWhiteSpace s = [])"
    by (rule dropWhile_all_iff)
  also have "\<dots> = list_all isWhiteSpace s"
    by (simp add: dropWhile_eq_Nil_conv list_all_iff)
  finally show ?thesis .
qed

lemma requests_tryBlock:
  "requests (fst (tryBlock cb net q f w)) = requests w @ [searchRequest q f]"
  by (simp add: tryBlock_def Let_def split: fetch_result.split json_body.split option.split)

lemma requests_catchBlock: "requests (catchBlock e w) = requests w"
  by (simp add: catchBlock_def)

lemma requests_performSearch:
  "\<not> list_all isWhiteSpace q \<Longrightarrow>
   requests (performSearch cb net q fs w) =
     requests w @ [searchRequest q (case fs of None \<Rightarrow> emptyFilters | Some f \<Rightarrow> f)]"
  by (simp add: performSearch_def trim_Nil_iff Let_def requests_tryBlock requests_catchBlock
      split: option.split)

lemma performSearch_blank:
  "list_all isWhiteSpace q \<Longrightarrow> performSearch cb net q fs w = w\<lparr>results := []\<rparr>"
  by (simp add: performSearch_def trim_Nil_iff)

text \<open>
  Claim C9. When every code unit of the query is white space (the empty query
  included), \<open>performSearch\<close> empties the result list, sends no request and leaves the
  loading flag and the error as they were. For every other query it sends exactly one
  request, whatever the network answers: a POST to the search endpoint whose body
  carries the query, the filters, limit 20 and the hybrid weights bm25 0.4, vector 0.4
  and rerank 0.2.
\<close>

theorem performSearch_blank_or_one_post:
  "(list_all isWhiteSpace searchQuery \<longrightarrow>
      results (performSearch onSearchComplete net searchQuery searchFilters w) = []
      \<and> requests (performSearch onSearchComplete net searchQuery searchFilters w) = requests w
      \<and> loading (performSearch onSearchComplete net searchQuery searchFilters w) = loading w
      \<and> error (performSearch onSearchComplete net searchQuery searchFilters w) = error w)
   \<and> (\<not> list_all isWhiteSpace searchQuery \<longrightarrow>
      requests (performSearch onSearchComplete net searchQuery searchFilters w) =
        requests w @
          [\<lparr>url = ''/api/v1/search'', http_method = ''POST'',
            headers = [(''Content-Type'', ''application/json'')],
            body = \<lparr>query = searchQuery,
                     filters = (case searchFilters of None \<Rightarrow> emptyFilters | Some f \<Rightarrow> f),
                     limit = 20,
                     hybrid_weights = \<lparr>bm25 = 4 / 10, vector = 4 / 10, rerank = 2 / 10\<rparr>\<rparr>\<rparr>])"
proof (intro conjI impI)
  assume b: "list_all isWhiteSpace searchQuery"
  show "results (performSearch onSearchComplete net searchQuery searchFilters w) = []"
    and "requests (performSearch onSearchComplete net searchQuery searchFilters w) = requests w"
    and "loading (performSearch onSearchComplete net searchQuery searchFilters w) = loading w"
    and "error (performSearch onSearchComplete net searchQuery searchFilters w) = error w"
    by (simp_all add: performSearch_blank [OF b])
next
  assume nb: "\<not> list_all isWhiteSpace searchQuery"
  show "requests (performSearch onSearchComplete net searchQuery searchFilters w) =
        requests w @
          [\<lparr>url = ''/api/v1/search'', http_method = ''POST'',
            headers = [(''Content-Type'', ''application/json'')],
            body = \<lparr>query = searchQuery,
                     filters = (case searchFilters of None \<Rightarrow> emptyFilters | Some f \<Rightarrow> f),
                     limit = 20,
                     hybrid_weights = \<lparr>bm25 = 4 / 10, vector = 4 / 10, rerank = 2 / 10\<rparr>\<rparr>\<rparr>]"
    using requests_performSearch [OF nb, of onSearchComplete net searchFilters w]
    by (simp add: searchRequest_def)
qed

text \<open>
  The theorem at two queries, on a component that holds one stale result and an old
  error: a space, a tab and a line feed (blank), and the query \<open>ai\<close>, answered with two
  results.
\<close>

theorem performSearch_blank_or_one_post_witness:
  "list_all isWhiteSpace [32, 9, 10]
   \<and> performSearch None (Response True (JsonData (Some [1, 2]))) [32, 9, 10] None
        \<lparr>results = [7::nat], loading = False, error = Some ''old'', requests = [],
         notified = []\<rparr>
      = \<lparr>results = [], loading = False, error = Some ''old'', requests = [], notified = []\<rparr>
   \<and> \<not> list_all isWhiteSpace [97, 105]
   \<and> length (requests (performSearch None (Response True (JsonData (Some [1, 2]))) [97, 105] None
        \<lparr>results = [7::nat], loading = False, error = Some ''old'', requests = [],
         notified = []\<rparr>)) = 1
   \<and> results (performSearch None (Response True (JsonData (Some [1, 2]))) [97, 105] None
        \<lparr>results = [7::nat], loading = False, error = Some ''old'', requests = [],
         notified = []\<rparr>) = [1, 2]"
  using performSearch_blank_or_one_post [of "[32, 9, 10]" None
      "Response True (JsonData (Some [1, 2]))" None
      "\<lparr>results = [7::nat], loading = False, error = Some ''old'', requests = [],
        notified = []\<rparr>"]
    performSearch_blank_or_one_post [of "[97, 105]" None
      "Response True (JsonData (Some [1, 2]))" None
      "\<lparr>results = [7::nat], loading = False, error = Some ''old'', requests = [],
        notified = []\<rparr>"]
  by (simp add: isWhiteSpace_def performSearch_def trim_def tryBlock_def Let_def)

section \<open>Properties of the Run State Store\<close>

lemma applyPatch_match:
  "base_version p = version (get st runId) \<Longrightarrow>
   applyPatch st runId p =
     (Inr (mergePatch (get st runId) p), st(runId := mergePatch (get st runId) p))"
  by (simp add: applyPatch_def Let_def)

lemma applyPatch_mismatch:
  "base_version p \<noteq> version (get st runId) \<Longrightarrow> applyPatch st runId p = (Inl StaleRun, st)"
  by (simp add: applyPatch_def)

lemma version_mergePatch: "version (mergePatch s p) = Suc (version s)"
  by (simp add: mergePatch_def)

lemma version_after_applyPatch:
  "fst (applyPatch st runId p) = Inr s' \<Longrightarrow>
   version (get (snd (applyPatch st runId p)) runId) = Suc (base_version p)"
  by (cases "base_version p = version (get st runId)")
    (auto simp add: applyPatch_match applyPatch_mismatch version_mergePatch get_def)

text \<open>
  Claim C5. \<open>apply\<close> succeeds exactly when the version the caller presents equals the
  current version of the run's state. With an older version it fails with StaleRun and
  the store is unchanged. Of two patches presented against the same base version, once
  one has succeeded the other fails with StaleRun and changes nothing, in whichever
  order the store linearizes them.
\<close>

theorem applyPatch_version_check:
  "((\<exists>s'. fst (applyPatch st runId p) = Inr s') = (base_version p = version (get st runId)))
   \<and> (base_version p < version (get st runId) \<longrightarrow> applyPatch st runId p = (Inl StaleRun, st))
   \<and> (fst (applyPatch st runId p) = Inr s1 \<and> base_version q = base_version p \<longrightarrow>
        applyPatch (snd (applyPatch st runId p)) runId q
          = (Inl StaleRun, snd (applyPatch st runId p)))"
proof (intro conjI impI)
  show "(\<exists>s'. fst (applyPatch st runId p) = Inr s') = (base_version p = version (get st runId))"
    by (cases "base_version p = version (get st runId)")
      (simp_all add: applyPatch_match applyPatch_mismatch)
next
  assume "base_version p < version (get st runId)"
  then have "base_version p \<noteq> version (get st runId)"
    by simp
  then show "applyPatch st runId p = (Inl StaleRun, st)"
    by (rule applyPatch_mismatch)
next
  assume a: "fst (applyPatch st runId p) = Inr s1 \<and> base_version q = base_version p"
  let ?st1 = "snd (applyPatch st runId p)"
  have "version (get ?st1 runId) = Suc (base_version p)"
    using a by (simp add: version_after_applyPatch)
  then have "base_version q \<noteq> version (get ?st1 runId)"
    using a by simp
  then show "applyPatch ?st1 runId q = (Inl StaleRun, ?st1)"
    by (rule applyPatch_mismatch)
qed

text \<open>
  The theorem on a store whose runs are all fresh at version 0: the patch with source
  \<open>a\<close> presented at version 0 succeeds, after which the patch with source \<open>b\<close>,
  presented at the same version 0, fails; and on a store at version 2 a patch presented
  at version 1 fails.
\<close>

theorem applyPatch_version_check_witness:
  "fst (applyPatch (\<lambda>r. freshState 0) 0 (evidencePatch 0 ''a''))
     = Inr ((freshState 1)\<lparr>evidence := [\<lparr>source_ref = ''a'', recency = 1\<rparr>]\<rparr>)
   \<and> base_version (evidencePatch 0 ''b'') = base_version (evidencePatch 0 ''a'')
   \<and> applyPatch (snd (applyPatch (\<lambda>r. freshState 0) 0 (evidencePatch 0 ''a''))) 0
        (evidencePatch 0 ''b'')
      = (Inl StaleRun, snd (applyPatch (\<lambda>r. freshState 0) 0 (evidencePatch 0 ''a'')))
   \<and> base_version (evidencePatch 1 ''c'') < version (get (\<lambda>r. freshState 2) 0)
   \<and> applyPatch (\<lambda>r. freshState 2) 0 (evidencePatch 1 ''c'') = (Inl StaleRun, \<lambda>r. freshState 2)"
  using applyPatch_version_check [where st = "\<lambda>r. freshState 0" and runId = 0
      and p = "evidencePatch 0 ''a''" and q = "evidencePatch 0 ''b''"
      and ?s1.0 = "(freshState 1)\<lparr>evidence := [\<lparr>source_ref = ''a'', recency = 1\<rparr>]\<rparr>"]
    applyPatch_version_check [where st = "\<lambda>r. freshState 2" and runId = 0
      and p = "evidencePatch 1 ''c''"]
  by (simp add: applyPatch_def get_def mergePatch_def freshState_def evidencePatch_def Let_def)

end
